theory Spec2Isabelle
  imports Main "HOL-Library.AList"
begin

section \<open>JavaScript values\<close>

text \<open>
  The values that flow through \<^verbatim>\<open>src/Model.js\<close>: plain data (queries, projections,
  options, records) and the functions handed to \<^verbatim>\<open>Model.use\<close>. Numbers are modelled
  as integers (no NaN, no fractions). An object is its list of own enumerable
  properties in insertion order.

  A function value is described by what \<^verbatim>\<open>new f(model)\<close> does: an arrow function is a
  function that cannot be constructed, a constructor may throw, or it yields an
  instance. Of that instance the code looks at two things only: whether its prototype
  chain holds \<^verbatim>\<open>Extension.prototype\<close> and what its \<^verbatim>\<open>apply\<close> property does when called
  (\<open>None\<close>: there is no callable \<^verbatim>\<open>apply\<close>). The class \<^verbatim>\<open>Extension\<close> itself is
  required from \<^verbatim>\<open>./Extension\<close> and occurs in \<^verbatim>\<open>Model.js\<close> as the right operand of
  \<^verbatim>\<open>instanceof\<close> only; \<^verbatim>\<open>apply()\<close> is documented to return a boolean.
\<close>

datatype apply_outcome = Returns bool | Throws string

record ext_instance =
  ext_name :: string
  is_Extension :: bool
  apply_method :: "apply_outcome option"

datatype jsfunction =
    Constructor ext_instance
  | ThrowingConstructor string
  | ArrowFunction

datatype jsval =
    JUndefined
  | JNull
  | JBool bool
  | JNum int
  | JStr string
  | JArr "jsval list"
  | JObj "(string \<times> jsval) list"
  | JFun jsfunction

type_synonym obj = "(string \<times> jsval) list"

datatype err = TypeError string | Thrown string | Rejected string

text \<open>JavaScript truthiness (\<^verbatim>\<open>ToBoolean\<close>).\<close>

fun truthy :: "jsval \<Rightarrow> bool" where
  "truthy JUndefined = False"
| "truthy JNull = False"
| "truthy (JBool b) = b"
| "truthy (JNum n) = (n \<noteq> 0)"
| "truthy (JStr s) = (s \<noteq> [])"
| "truthy (JArr xs) = True"
| "truthy (JObj fs) = True"
| "truthy (JFun f) = True"

text \<open>\<^verbatim>\<open>'object' === typeof v && null !== v\<close>: arrays are objects, functions are not.\<close>

fun is_object :: "jsval \<Rightarrow> bool" where
  "is_object (JArr xs) = True"
| "is_object (JObj fs) = True"
| "is_object v = False"

fun isArray :: "jsval \<Rightarrow> bool" where
  "isArray (JArr xs) = True"
| "isArray v = False"

text \<open>A default parameter value (\<^verbatim>\<open>query = {}\<close>) replaces \<^verbatim>\<open>undefined\<close> only.\<close>

definition default_param :: "jsval \<Rightarrow> jsval \<Rightarrow> jsval" where
  "default_param v d = (if v = JUndefined then d else v)"

text \<open>Property read \<^verbatim>\<open>o[k]\<close> and write \<^verbatim>\<open>o[k] = v\<close> on a property list; \<^verbatim>\<open>delete o[k]\<close>.\<close>

definition get_prop :: "obj \<Rightarrow> string \<Rightarrow> jsval" where
  "get_prop fs k = (case map_of fs k of None \<Rightarrow> JUndefined | Some v \<Rightarrow> v)"

definition set_prop :: "string \<Rightarrow> jsval \<Rightarrow> obj \<Rightarrow> obj" where
  "set_prop k v fs = AList.update k v fs"


text \<open>Decimal rendering of an array index, the key \<^verbatim>\<open>Object.keys\<close> gives it.\<close>

fun digit_char :: "nat \<Rightarrow> char" where
  "digit_char n = char_of (48 + n)"

function index_key :: "nat \<Rightarrow> string" where
  "index_key n = (if n < 10 then [digit_char n] else index_key (n div 10) @ [digit_char (n mod 10)])"
  by pat_completeness auto
termination
  by (relation "measure id") auto

declare index_key.simps [simp del]

fun index_props :: "nat \<Rightarrow> jsval list \<Rightarrow> obj" where
  "index_props i [] = []"
| "index_props i (x # xs) = (index_key i, x) # index_props (Suc i) xs"

text \<open>
  The own enumerable properties \<^verbatim>\<open>Object.keys(values)\<close> walks after the guard of
  \<^verbatim>\<open>assign\<close>: anything that is not a non-null object counts as \<^verbatim>\<open>{}\<close>.
\<close>

fun own_props :: "jsval \<Rightarrow> obj" where
  "own_props (JObj fs) = fs"
| "own_props (JArr xs) = index_props 0 xs"
| "own_props v = []"

section \<open>Model types\<close>

text \<open>
  A model type is the class \<^verbatim>\<open>Model\<close> or a subclass of it. What the static methods
  read of \<^verbatim>\<open>this\<close> is the result of \<^verbatim>\<open>this.defaults()\<close>, with its three mappings, and the
  identity of the class (which selects the datastore). The static methods a subclass
  defines itself are kept apart, in the table of the section on static dispatch; the
  instance methods of every class are those of \<^verbatim>\<open>Model.prototype\<close>.
\<close>

record model_class =
  class_name :: string
  query_defaults :: obj
  projection_defaults :: obj
  values_defaults :: obj

text \<open>\<^verbatim>\<open>Model.defaults()\<close> of the base class: three empty mappings.\<close>

definition Model :: model_class where
  "Model = \<lparr>class_name = ''Model'', query_defaults = [], projection_defaults = [],
     values_defaults = []\<rparr>"

section \<open>The extension mechanism: \<^verbatim>\<open>Model.use\<close>\<close>

text \<open>
  What can be observed of \<^verbatim>\<open>use\<close> besides its result: which extension constructors
  were run with \<^verbatim>\<open>new\<close> on which model type, and whose \<^verbatim>\<open>apply()\<close> was invoked.
\<close>

datatype event = Instantiated string string | Applied string

text \<open>\<^verbatim>\<open>new extension(this)\<close>.\<close>

fun js_new :: "jsfunction \<Rightarrow> err + ext_instance" where
  "js_new (Constructor i) = Inr i"
| "js_new (ThrowingConstructor m) = Inl (Thrown m)"
| "js_new ArrowFunction = Inl (TypeError ''extension is not a constructor'')"

text \<open>
  \<^verbatim>\<open>x instanceof Extension\<close>: false for every operand that is not an object with
  \<^verbatim>\<open>Extension.prototype\<close> on its prototype chain; in particular for every primitive
  and every plain value. An instance, like every object, is truthy.
\<close>

fun instanceof_Extension :: "jsval + ext_instance \<Rightarrow> bool" where
  "instanceof_Extension (Inl v) = False"
| "instanceof_Extension (Inr i) = is_Extension i"

definition instance_truthy :: "ext_instance \<Rightarrow> bool" where
  "instance_truthy i = True"

text \<open>\<^verbatim>\<open>extension.apply()\<close> on a constructed instance.\<close>

definition call_apply :: "ext_instance \<Rightarrow> event list \<Rightarrow> (err + bool) \<times> event list" where
  "call_apply i t =
     (case apply_method i of
        None \<Rightarrow> (Inl (TypeError ''extension.apply is not a function''), t)
      | Some (Returns b) \<Rightarrow> (Inr b, t @ [Applied (ext_name i)])
      | Some (Throws m) \<Rightarrow> (Inl (Thrown m), t @ [Applied (ext_name i)]))"

text \<open>
  \<^verbatim>\<open>static use(extension)\<close>. The array case is the \<^verbatim>\<open>reduce\<close> with the callback
  \<^verbatim>\<open>result && this.use(extension)\<close> started at \<^verbatim>\<open>true\<close>: \<open>use_reduce\<close> is that loop, its
  second argument the accumulator. The guard \<^verbatim>\<open>! extension instanceof Extension\<close>
  parses as \<^verbatim>\<open>(! extension) instanceof Extension\<close>: the negation is taken first and
  its boolean is the operand of \<^verbatim>\<open>instanceof\<close>.
\<close>

fun use :: "model_class \<Rightarrow> jsval \<Rightarrow> event list \<Rightarrow> (err + bool) \<times> event list"
  and use_reduce :: "model_class \<Rightarrow> bool \<Rightarrow> jsval list \<Rightarrow> event list \<Rightarrow> (err + bool) \<times> event list"
where
  "use M (JArr es) t = use_reduce M True es t"
| "use M (JFun f) t =
     (case js_new f of
        Inl e \<Rightarrow> (Inl e, t)
      | Inr extension \<Rightarrow>
          (let t1 = t @ [Instantiated (ext_name extension) (class_name M)] in
           if instanceof_Extension (Inl (JBool (\<not> instance_truthy extension)))
           then (Inr False, t1)
           else call_apply extension t1))"
| "use M JUndefined t = (Inr False, t)"
| "use M JNull t = (Inr False, t)"
| "use M (JBool b) t = (Inr False, t)"
| "use M (JNum n) t = (Inr False, t)"
| "use M (JStr s) t = (Inr False, t)"
| "use M (JObj fs) t = (Inr False, t)"
| "use_reduce M result [] t = (Inr result, t)"
| "use_reduce M result (e # es) t =
     (if result
      then (case use M e t of
              (Inl x, t1) \<Rightarrow> (Inl x, t1)
            | (Inr r, t1) \<Rightarrow> use_reduce M r es t1)
      else use_reduce M result es t)"



section \<open>The helpers: augmenter, converter, datastore\<close>

text \<open>
  Modelled from the spec: \<^verbatim>\<open>helpers/augmenter.js\<close> is required by \<^verbatim>\<open>Model.js\<close> and is not
  among the sources. Section 4.1 (Defaults Resolver): for each key of the defaults, if
  the default and the override at that key are both non-null mappings they are merged
  recursively; otherwise an override that is provided and neither \<^verbatim>\<open>null\<close> nor
  \<^verbatim>\<open>undefined\<close> replaces the default entirely (arrays and scalars included); keys
  present only in the overrides are added; an overrides argument that is not a mapping
  is treated as an empty mapping.
\<close>

fun merge_value :: "jsval \<Rightarrow> jsval \<Rightarrow> jsval"
  and merge_defaults :: "obj \<Rightarrow> obj \<Rightarrow> obj"
where
  "merge_value (JObj ds) (JObj os) =
     JObj (merge_defaults ds os @ filter (\<lambda>(k, v). map_of ds k = None) os)"
| "merge_value d JUndefined = d"
| "merge_value d JNull = d"
| "merge_value d v = v"
| "merge_defaults [] os = []"
| "merge_defaults ((k, d) # ds) os =
     (k, (case map_of os k of None \<Rightarrow> d | Some v \<Rightarrow> merge_value d v)) # merge_defaults ds os"

definition augmenter :: "obj \<Rightarrow> jsval \<Rightarrow> jsval" where
  "augmenter defaults overrides =
     merge_value (JObj defaults) (case overrides of JObj os \<Rightarrow> JObj os | _ \<Rightarrow> JObj [])"

text \<open>
  Model instances live in a heap: an instance is an address, and mutating it changes the
  heap at that address. Instance fields hold plain data.
\<close>

type_synonym addr = nat

record model_instance =
  inst_class :: model_class
  inst_fields :: obj

text \<open>
  The storage engine is an external collaborator. A call on a collection handle is
  recorded in the order it was made; the engine answers a call with a raw value or
  rejects it, and may change its own state \<open>'s\<close>. \<open>CFind\<close> is the construction of a
  lazy cursor, \<open>CExec\<close> its terminal execution.
\<close>

datatype call =
    CFind jsval jsval
  | CExec jsval jsval
  | CFindOne jsval jsval
  | CCount jsval
  | CInsert jsval
  | CUpdate jsval jsval jsval
  | CRemove jsval jsval

type_synonym handle = string

type_synonym 's engine = "handle \<Rightarrow> call \<Rightarrow> 's \<Rightarrow> (err + jsval) \<times> 's"

record 's world =
  heap :: "model_instance list"
  calls :: "(handle \<times> call) list"
  db :: 's

text \<open>
  Modelled from the spec: \<^verbatim>\<open>helpers/datastore.js\<close> is not among the sources. Section 4.2
  (Datastore Resolver): each model type resolves, once and for all, to the handle of its
  own backing collection. The handle is identified by the class.
\<close>

definition datastore :: "model_class \<Rightarrow> handle" where
  "datastore M = class_name M"

text \<open>An awaited call on the handle: the call is recorded and the engine answers.\<close>

definition perform :: "'s engine \<Rightarrow> handle \<Rightarrow> call \<Rightarrow> 's world \<Rightarrow> (err + jsval) \<times> 's world" where
  "perform eng h c w =
     (case eng h c (db w) of (r, d) \<Rightarrow> (r, w\<lparr>calls := calls w @ [(h, c)], db := d\<rparr>))"

text \<open>
  The cursor of the storage engine (section 6): \<^verbatim>\<open>find(query, projection)\<close> on the handle
  builds it without executing anything; \<^verbatim>\<open>exec\<close> is its terminal step.
\<close>

record ('s, 'r) cursor =
  cursor_query :: jsval
  cursor_projection :: jsval
  exec :: "'s world \<Rightarrow> (err + 'r) \<times> 's world"

definition handle_find ::
  "'s engine \<Rightarrow> handle \<Rightarrow> jsval \<Rightarrow> jsval \<Rightarrow> 's world \<Rightarrow> ('s, jsval) cursor \<times> 's world" where
  "handle_find eng h query projection w =
     (\<lparr>cursor_query = query, cursor_projection = projection,
       exec = perform eng h (CExec query projection)\<rparr>,
      w\<lparr>calls := calls w @ [(h, CFind query projection)]\<rparr>)"

section \<open>Instances: \<^verbatim>\<open>constructor\<close>, \<^verbatim>\<open>assign\<close>, \<^verbatim>\<open>getClass\<close>, \<^verbatim>\<open>toPOJO\<close>\<close>

text \<open>
  The \<^verbatim>\<open>forEach\<close> of \<^verbatim>\<open>assign\<close>: each enumerable key of the values is written onto the
  target, in order.
\<close>

fun assign_fields :: "obj \<Rightarrow> obj \<Rightarrow> obj" where
  "assign_fields target [] = target"
| "assign_fields target ((key, v) # rest) = assign_fields (set_prop key v target) rest"

text \<open>
  What \<^verbatim>\<open>assign\<close> is given in this file: a plain value or a model instance. The guard
  \<^verbatim>\<open>'object' === typeof values && null !== values\<close> turns everything else into \<^verbatim>\<open>{}\<close>.
\<close>

datatype assignable = Plain jsval | Instance addr

definition assign :: "addr \<Rightarrow> assignable \<Rightarrow> 's world \<Rightarrow> 's world" where
  "assign this vals w =
     (let props = (case vals of
                     Plain v \<Rightarrow> (if is_object v then own_props v else [])
                   | Instance b \<Rightarrow> inst_fields (heap w ! b));
          self = heap w ! this
      in w\<lparr>heap := (heap w)[this := self\<lparr>inst_fields := assign_fields (inst_fields self) props\<rparr>]\<rparr>)"

text \<open>\<^verbatim>\<open>new M(values)\<close>: a fresh instance of the class, then \<^verbatim>\<open>this.assign(values)\<close>.\<close>

definition new_model :: "model_class \<Rightarrow> jsval \<Rightarrow> 's world \<Rightarrow> addr \<times> 's world" where
  "new_model M v w =
     (let this = length (heap w);
          w1 = w\<lparr>heap := heap w @ [\<lparr>inst_class = M, inst_fields = []\<rparr>]\<rparr>
      in (this, assign this (Plain v) w1))"

text \<open>
  The instance methods reach \<^verbatim>\<open>getClass\<close>, \<^verbatim>\<open>toPOJO\<close> and \<^verbatim>\<open>assign\<close> by property lookup
  on the instance (\<^verbatim>\<open>this.getClass()\<close>), and \<^verbatim>\<open>getClass\<close> reads \<^verbatim>\<open>this.constructor\<close>. Since
  \<^verbatim>\<open>assign\<close> writes every key of a record onto the instance, an own field with one of these
  names shadows the member of the prototype: the lookup then yields the field's value.

  Calling a value: only a function can be called. The constructors of this file are
  classes, which cannot be called without \<^verbatim>\<open>new\<close>; the arrow function of this file is
  \<^verbatim>\<open>() => {}\<close>, which returns \<^verbatim>\<open>undefined\<close>.
\<close>

fun js_call :: "jsval \<Rightarrow> err + jsval" where
  "js_call (JFun ArrowFunction) = Inr JUndefined"
| "js_call (JFun (Constructor i)) =
     Inl (TypeError ''class constructor cannot be invoked without new'')"
| "js_call (JFun (ThrowingConstructor m)) =
     Inl (TypeError ''class constructor cannot be invoked without new'')"
| "js_call v = Inl (TypeError ''not a function'')"

text \<open>
  What \<^verbatim>\<open>this.constructor\<close> evaluates to: the class of the instance, found on the
  prototype, unless an own field named \<^verbatim>\<open>constructor\<close> shadows it with a value.
\<close>

datatype receiver = Class model_class | Value jsval

definition getClass :: "addr \<Rightarrow> 's world \<Rightarrow> receiver" where
  "getClass this w =
     (case map_of (inst_fields (heap w ! this)) ''constructor'' of
        None \<Rightarrow> Class (inst_class (heap w ! this))
      | Some v \<Rightarrow> Value v)"

text \<open>\<^verbatim>\<open>toPOJO\<close>: the \<^verbatim>\<open>reduce\<close> copies every own key into a new object.\<close>

definition toPOJO :: "addr \<Rightarrow> 's world \<Rightarrow> obj" where
  "toPOJO this w = assign_fields [] (inst_fields (heap w ! this))"

text \<open>
  The calls \<^verbatim>\<open>this.getClass()\<close>, \<^verbatim>\<open>this.toPOJO()\<close> and \<^verbatim>\<open>this.assign(values)\<close> as the
  instance methods make them: the method of \<^verbatim>\<open>Model.prototype\<close> when no own field has the
  name, the call of the field's value otherwise.
\<close>

definition call_getClass :: "addr \<Rightarrow> 's world \<Rightarrow> err + receiver" where
  "call_getClass this w =
     (case map_of (inst_fields (heap w ! this)) ''getClass'' of
        None \<Rightarrow> Inr (getClass this w)
      | Some g \<Rightarrow> (case js_call g of Inl e \<Rightarrow> Inl e | Inr v \<Rightarrow> Inr (Value v)))"

definition call_toPOJO :: "addr \<Rightarrow> 's world \<Rightarrow> err + jsval" where
  "call_toPOJO this w =
     (case map_of (inst_fields (heap w ! this)) ''toPOJO'' of
        None \<Rightarrow> Inr (JObj (toPOJO this w))
      | Some g \<Rightarrow> js_call g)"

definition call_assign :: "addr \<Rightarrow> assignable \<Rightarrow> 's world \<Rightarrow> err + 's world" where
  "call_assign this vals w =
     (case map_of (inst_fields (heap w ! this)) ''assign'' of
        None \<Rightarrow> Inr (assign this vals w)
      | Some g \<Rightarrow> (case js_call g of Inl e \<Rightarrow> Inl e | Inr v \<Rightarrow> Inr w))"

section \<open>Hydration\<close>

datatype hydrated = Raw jsval | Inst addr | Insts "addr list"

text \<open>
  Modelled from the spec: \<^verbatim>\<open>helpers/converter.js\<close> is not among the sources. Section 4.3
  (Result Hydrator): \<^verbatim>\<open>null\<close> and scalars pass through unchanged, a single record
  becomes one model instance constructed from it, and an ordered sequence becomes the
  ordered sequence of the instances constructed from its elements.
\<close>

fun convert_all :: "model_class \<Rightarrow> jsval list \<Rightarrow> 's world \<Rightarrow> addr list \<times> 's world" where
  "convert_all M [] w = ([], w)"
| "convert_all M (r # rs) w =
     (case new_model M r w of (a, w1) \<Rightarrow>
        (case convert_all M rs w1 of (as, w2) \<Rightarrow> (a # as, w2)))"

definition converter :: "model_class \<Rightarrow> jsval \<Rightarrow> 's world \<Rightarrow> hydrated \<times> 's world" where
  "converter M raw w =
     (case raw of
        JArr rs \<Rightarrow> (case convert_all M rs w of (as, w1) \<Rightarrow> (Insts as, w1))
      | JObj fs \<Rightarrow> (case new_model M raw w of (a, w1) \<Rightarrow> (Inst a, w1))
      | _ \<Rightarrow> (Raw raw, w))"

text \<open>
  \<^verbatim>\<open>converter(this)(await \<dots>)\<close>: a rejection of the awaited call propagates, a result is
  converted.
\<close>

definition hydrate :: "model_class \<Rightarrow> (err + jsval) \<times> 's world \<Rightarrow> (err + hydrated) \<times> 's world" where
  "hydrate M rw =
     (case rw of
        (Inl e, w) \<Rightarrow> (Inl e, w)
      | (Inr raw, w) \<Rightarrow> (case converter M raw w of (h, w1) \<Rightarrow> (Inr h, w1)))"

section \<open>The static methods\<close>

text \<open>
  Each static method takes the class it is called on, the storage engine and the world.
  \<^verbatim>\<open>find\<close> is the one method that is not \<^verbatim>\<open>async\<close>: it asks the handle for a cursor and
  replaces the cursor's \<^verbatim>\<open>exec\<close> by one that converts what the original \<^verbatim>\<open>exec\<close> yields.
  Since the replacement changes the type of what \<^verbatim>\<open>exec\<close> yields, the model builds the
  returned cursor from the fields of the handle's cursor. \<^verbatim>\<open>update\<close> and \<^verbatim>\<open>remove\<close> apply
  the augmenter to the options only; their \<^verbatim>\<open>query\<close> has the default value \<^verbatim>\<open>{}\<close> and is
  passed on as it is.
\<close>

definition Model_find ::
  "model_class \<Rightarrow> 's engine \<Rightarrow> jsval \<Rightarrow> jsval \<Rightarrow> 's world \<Rightarrow> ('s, hydrated) cursor \<times> 's world" where
  "Model_find M eng query projection w =
     (let query = augmenter (query_defaults M) (default_param query (JObj []));
          projection = augmenter (projection_defaults M) projection
      in case handle_find eng (datastore M) query projection w of (cursor, w1) \<Rightarrow>
           (let exec0 = exec cursor
            in (\<lparr>cursor_query = cursor_query cursor, cursor_projection = cursor_projection cursor,
                 exec = (\<lambda>w'. hydrate M (exec0 w'))\<rparr>, w1)))"

definition Model_findOne ::
  "model_class \<Rightarrow> 's engine \<Rightarrow> jsval \<Rightarrow> jsval \<Rightarrow> 's world \<Rightarrow> (err + hydrated) \<times> 's world" where
  "Model_findOne M eng query projection w =
     (let query = augmenter (query_defaults M) (default_param query (JObj []));
          projection = augmenter (projection_defaults M) projection
      in hydrate M (perform eng (datastore M) (CFindOne query projection) w))"

definition Model_count ::
  "model_class \<Rightarrow> 's engine \<Rightarrow> jsval \<Rightarrow> 's world \<Rightarrow> (err + hydrated) \<times> 's world" where
  "Model_count M eng query w =
     (let query = augmenter (query_defaults M) (default_param query (JObj []))
      in hydrate M (perform eng (datastore M) (CCount query) w))"

definition Model_insert ::
  "model_class \<Rightarrow> 's engine \<Rightarrow> jsval \<Rightarrow> 's world \<Rightarrow> (err + hydrated) \<times> 's world" where
  "Model_insert M eng vals w =
     (let augment = augmenter (values_defaults M);
          vals = (case vals of JArr xs \<Rightarrow> JArr (map augment xs) | _ \<Rightarrow> augment vals)
      in hydrate M (perform eng (datastore M) (CInsert vals) w))"

definition Model_update ::
  "model_class \<Rightarrow> 's engine \<Rightarrow> jsval \<Rightarrow> jsval \<Rightarrow> jsval \<Rightarrow> 's world \<Rightarrow> (err + hydrated) \<times> 's world" where
  "Model_update M eng query vals options w =
     (let query = default_param query (JObj []);
          options = augmenter [(''multi'', JBool True)] options
      in hydrate M (perform eng (datastore M) (CUpdate query vals options) w))"

definition Model_remove ::
  "model_class \<Rightarrow> 's engine \<Rightarrow> jsval \<Rightarrow> jsval \<Rightarrow> 's world \<Rightarrow> (err + hydrated) \<times> 's world" where
  "Model_remove M eng query options w =
     (let query = default_param query (JObj []);
          options = augmenter [(''multi'', JBool True)] options
      in hydrate M (perform eng (datastore M) (CRemove query options) w))"

section \<open>Static dispatch\<close>

text \<open>
  The instance methods call \<^verbatim>\<open>this.getClass().insert\<close>, \<^verbatim>\<open>.update\<close> and \<^verbatim>\<open>.remove\<close>, and
  \<^verbatim>\<open>create\<close> calls \<^verbatim>\<open>this.insert\<close>: the method called is the one the class has. A subclass
  inherits the static methods of \<^verbatim>\<open>Model\<close> unless it defines its own, and what such a
  method does is not in \<^verbatim>\<open>Model.js\<close>: the static methods that classes define themselves are
  a parameter, a table giving for a class and a name the method the class defines, if it
  defines one. A method takes the list of its arguments; a missing argument is
  \<^verbatim>\<open>undefined\<close>.
\<close>

datatype static_name = Insert_static | Update_static | Remove_static

fun static_key :: "static_name \<Rightarrow> string" where
  "static_key Insert_static = ''insert''"
| "static_key Update_static = ''update''"
| "static_key Remove_static = ''remove''"

type_synonym 's static_method = "jsval list \<Rightarrow> 's world \<Rightarrow> (err + hydrated) \<times> 's world"

type_synonym 's overrides = "model_class \<Rightarrow> static_name \<Rightarrow> 's static_method option"

definition nth_arg :: "jsval list \<Rightarrow> nat \<Rightarrow> jsval" where
  "nth_arg args i = (if i < length args then args ! i else JUndefined)"

fun inherited :: "'s engine \<Rightarrow> model_class \<Rightarrow> static_name \<Rightarrow> 's static_method" where
  "inherited eng M Insert_static args = Model_insert M eng (nth_arg args 0)"
| "inherited eng M Update_static args =
     Model_update M eng (nth_arg args 0) (nth_arg args 1) (nth_arg args 2)"
| "inherited eng M Remove_static args = Model_remove M eng (nth_arg args 0) (nth_arg args 1)"

definition class_static ::
  "'s overrides \<Rightarrow> 's engine \<Rightarrow> model_class \<Rightarrow> static_name \<Rightarrow> 's static_method" where
  "class_static ov eng M n = (case ov M n of Some f \<Rightarrow> f | None \<Rightarrow> inherited eng M n)"

text \<open>\<^verbatim>\<open>static async create(values)\<close>: \<^verbatim>\<open>return await this.insert(values)\<close>.\<close>

definition Model_create ::
  "'s overrides \<Rightarrow> model_class \<Rightarrow> 's engine \<Rightarrow> jsval \<Rightarrow> 's world \<Rightarrow> (err + hydrated) \<times> 's world" where
  "Model_create ov M eng vals w = class_static ov eng M Insert_static [vals] w"

text \<open>
  The member \<^verbatim>\<open>c.insert\<close> (\<^verbatim>\<open>c.update\<close>, \<^verbatim>\<open>c.remove\<close>) of what \<^verbatim>\<open>this.getClass()\<close> returned.
  On a class it is the static method of the class. On \<^verbatim>\<open>undefined\<close> and \<^verbatim>\<open>null\<close> the
  property access throws. On any other value it is the own property of that name of an
  object and \<^verbatim>\<open>undefined\<close> otherwise (no string, number, boolean, array or function of
  this file has a property of these names); calling it is calling that value.
\<close>

definition static_member ::
  "'s overrides \<Rightarrow> 's engine \<Rightarrow> receiver \<Rightarrow> static_name \<Rightarrow> err + 's static_method" where
  "static_member ov eng c n =
     (case c of
        Class M \<Rightarrow> Inr (class_static ov eng M n)
      | Value v \<Rightarrow>
          if v = JUndefined \<or> v = JNull
          then Inl (TypeError ''cannot read properties of undefined or null'')
          else Inr (\<lambda>args w.
                 case js_call (get_prop (case v of JObj fs \<Rightarrow> fs | _ \<Rightarrow> []) (static_key n)) of
                   Inl e \<Rightarrow> (Inl e, w)
                 | Inr r \<Rightarrow> (Inr (Raw r), w)))"

text \<open>
  \<^verbatim>\<open>this.getClass().m(args)\<close> in the order JavaScript evaluates it: the call of
  \<^verbatim>\<open>getClass\<close>, the access to the member, the arguments (which may throw: they hold
  \<^verbatim>\<open>this.toPOJO()\<close>), and then the call.
\<close>

definition call_class_static ::
  "'s overrides \<Rightarrow> 's engine \<Rightarrow> addr \<Rightarrow> static_name \<Rightarrow> err + jsval list \<Rightarrow> 's world \<Rightarrow>
     (err + hydrated) \<times> 's world" where
  "call_class_static ov eng this n args w =
     (case call_getClass this w of
        Inl e \<Rightarrow> (Inl e, w)
      | Inr c \<Rightarrow>
          (case static_member ov eng c n of
             Inl e \<Rightarrow> (Inl e, w)
           | Inr f \<Rightarrow> (case args of Inl e \<Rightarrow> (Inl e, w) | Inr as \<Rightarrow> f as w)))"

section \<open>The instance methods \<^verbatim>\<open>save\<close>, \<^verbatim>\<open>remove\<close>, \<^verbatim>\<open>duplicate\<close>\<close>

text \<open>\<^verbatim>\<open>Array.isArray(result) ? result[0] : result\<close>, as \<^verbatim>\<open>save\<close> passes it to \<^verbatim>\<open>assign\<close>.\<close>

fun first_or_self :: "hydrated \<Rightarrow> assignable" where
  "first_or_self (Insts []) = Plain JUndefined"
| "first_or_self (Insts (a # as)) = Instance a"
| "first_or_self (Inst a) = Instance a"
| "first_or_self (Raw (JArr [])) = Plain JUndefined"
| "first_or_self (Raw (JArr (x # xs))) = Plain x"
| "first_or_self (Raw v) = Plain v"

text \<open>
  The end of \<^verbatim>\<open>save\<close>, once the awaited call has settled: a rejection propagates;
  otherwise \<^verbatim>\<open>this.assign(Array.isArray(result) ? result[0] : result)\<close> and
  \<^verbatim>\<open>return this\<close>.
\<close>

definition assign_and_return ::
  "addr \<Rightarrow> (err + hydrated) \<times> 's world \<Rightarrow> (err + addr) \<times> 's world" where
  "assign_and_return this settled =
     (case settled of
        (Inl e, w1) \<Rightarrow> (Inl e, w1)
      | (Inr result, w1) \<Rightarrow>
          (case call_assign this (first_or_self result) w1 of
             Inl e \<Rightarrow> (Inl e, w1)
           | Inr w2 \<Rightarrow> (Inr this, w2)))"

definition save :: "'s overrides \<Rightarrow> 's engine \<Rightarrow> addr \<Rightarrow> 's world \<Rightarrow> (err + addr) \<times> 's world" where
  "save ov eng this w =
     (let id = get_prop (inst_fields (heap w ! this)) ''_id''
      in assign_and_return this
           (if truthy id
            then call_class_static ov eng this Update_static
                   (case call_toPOJO this w of
                      Inl e \<Rightarrow> Inl e
                    | Inr pojo \<Rightarrow>
                        Inr [JObj [(''_id'', id)],
                             JObj [(''$set'', pojo)],
                             JObj [(''returnUpdatedDocs'', JBool True)]]) w
            else call_class_static ov eng this Insert_static
                   (case call_toPOJO this w of
                      Inl e \<Rightarrow> Inl e
                    | Inr pojo \<Rightarrow> Inr [pojo]) w))"

definition remove :: "'s overrides \<Rightarrow> 's engine \<Rightarrow> addr \<Rightarrow> 's world \<Rightarrow> (err + hydrated) \<times> 's world" where
  "remove ov eng this w =
     (let id = get_prop (inst_fields (heap w ! this)) ''_id''
      in if \<not> truthy id then (Inr (Raw (JNum 0)), w)
         else call_class_static ov eng this Remove_static
                (Inr [JObj [(''_id'', id)], JObj [(''multi'', JBool False)]]) w)"



text \<open>
  A storage engine that answers every call with the same raw value and has no state of
  its own; a model type with defaults; a world holding no instance and no call.
\<close>

definition answering :: "jsval \<Rightarrow> unit engine" where
  "answering r h c d = (Inr r, d)"

definition Book :: model_class where
  "Book = \<lparr>class_name = ''Book'', query_defaults = [(''deleted'', JBool False)],
     projection_defaults = [(''title'', JNum 1)], values_defaults = [(''pages'', JNum 0)]\<rparr>"

definition world_of :: "model_instance list \<Rightarrow> unit world" where
  "world_of h = \<lparr>heap = h, calls = [], db = ()\<rparr>"

text \<open>
  A heap of three books: one with an identifier, one without, and one whose \<^verbatim>\<open>_id\<close> is
  \<^verbatim>\<open>0\<close>.
\<close>

definition shelf :: "model_instance list" where
  "shelf = [\<lparr>inst_class = Book, inst_fields = [(''_id'', JStr ''b1''), (''title'', JStr ''A'')]\<rparr>,
            \<lparr>inst_class = Book, inst_fields = [(''title'', JStr ''B'')]\<rparr>,
            \<lparr>inst_class = Book, inst_fields = [(''_id'', JNum 0), (''title'', JStr ''C'')]\<rparr>]"


text \<open>
  No class defines a static method of its own. A heap holding the one book hydrated from
  the record \<^verbatim>\<open>{_id: 'b1', title: 'A', constructor: 'Acme'}\<close>. An instance is free of
  the given names when none of its own fields has one of them.
\<close>

definition no_overrides :: "unit overrides" where
  "no_overrides M n = None"


definition unshadowed :: "addr \<Rightarrow> 's world \<Rightarrow> string list \<Rightarrow> bool" where
  "unshadowed this w names =
     list_all (\<lambda>n. map_of (inst_fields (heap w ! this)) n = None) names"

section \<open>Example extensions\<close>

text \<open>
  Two conforming extensions, a class that is no extension and has no \<^verbatim>\<open>apply\<close>, and a
  class that is no extension but has one.
\<close>

definition SoftRemoves :: jsfunction where
  "SoftRemoves = Constructor \<lparr>ext_name = ''SoftRemoves'', is_Extension = True, apply_method = Some (Returns True)\<rparr>"
definition Timestamps :: jsfunction where
  "Timestamps = Constructor \<lparr>ext_name = ''Timestamps'', is_Extension = True, apply_method = Some (Returns True)\<rparr>"
definition PlainClass :: jsfunction where
  "PlainClass = Constructor \<lparr>ext_name = ''PlainClass'', is_Extension = False, apply_method = None\<rparr>"
definition Impostor :: jsfunction where
  "Impostor = Constructor \<lparr>ext_name = ''Impostor'', is_Extension = False, apply_method = Some (Returns True)\<rparr>"

text \<open>
  An extension succeeds when \<^verbatim>\<open>use\<close> on it alone returns \<^verbatim>\<open>true\<close>; the attempted part of
  a sequence is its longest prefix of succeeding elements and the element after it.
\<close>

definition succeeds :: "model_class \<Rightarrow> jsval \<Rightarrow> bool" where
  "succeeds M e = (fst (use M e []) = Inr True)"

definition attempted :: "model_class \<Rightarrow> jsval list \<Rightarrow> jsval list" where
  "attempted M es = takeWhile (succeeds M) es @ take 1 (dropWhile (succeeds M) es)"


section \<open>Properties of the extension mechanism\<close>

lemma use_trace_aux:
  "(\<forall>s. use M e s = (fst (use M e []), s @ snd (use M e []))) \<and> ((t::event list) = t)"
  "(\<forall>s. use_reduce M r es s = (fst (use_reduce M r es []), s @ snd (use_reduce M r es []))) \<and> ((t::event list) = t)"
proof (induction M e t and M r es t rule: use_use_reduce.induct)
  case (1 M es t)
  then have "use_reduce M True es s = (fst (use_reduce M True es []), s @ snd (use_reduce M True es []))" for s
    by blast
  then show ?case unfolding use.simps(1) by blast
next
  case (2 M f t)
  show ?case
    by (simp add: call_apply_def Let_def split: sum.splits option.splits apply_outcome.splits)
next
  case (10 M result e es t)
  show ?case
  proof (cases result)
    case False
    have rf: "result = False" using False by simp
    have ih: "use_reduce M False es s = (fst (use_reduce M False es []), s @ snd (use_reduce M False es []))" for s
      using 10(3)[OF False] unfolding rf by blast
    have step: "use_reduce M False (e # es) s = use_reduce M False es s" for s by simp
    show ?thesis unfolding rf step using ih by blast
  next
    case True
    obtain x t1 where u: "use M e [] = (x, t1)" by (cases "use M e []")
    have ih1: "use M e s = (fst (use M e []), s @ snd (use M e []))" for s
      using 10(1)[OF True] by blast
    have ut: "use M e s = (x, s @ t1)" for s using ih1[of s] u by simp
    show ?thesis
    proof (cases x)
      case (Inl a)
      with True u ut show ?thesis by simp
    next
      case (Inr b)
      have "use M e t = (x, t @ t1)" by (rule ut)
      from 10(2)[OF True this[symmetric] Inr]
      have a: "use_reduce M b es s = (fst (use_reduce M b es []), s @ snd (use_reduce M b es []))" for s
        by blast
      show ?thesis
      proof (intro conjI allI)
        fix s
        show "use_reduce M result (e # es) s =
          (fst (use_reduce M result (e # es) []), s @ snd (use_reduce M result (e # es) []))"
          using True u ut[of s] Inr a[of "s @ t1"] a[of t1] by simp
      qed simp
    qed
  qed
qed simp_all


lemma use_trace: "use M e t = (fst (use M e []), t @ snd (use M e []))"
  using use_trace_aux(1) by blast

lemma use_reduce_False: "use_reduce M False es t = (Inr False, t)"
  by (induction es) simp_all

lemma use_reduce_Cons:
  assumes "fst (use M e []) = Inr b"
  shows "use_reduce M True (e # es) t = use_reduce M b es (t @ snd (use M e []))"
proof -
  have "use M e t = (Inr b, t @ snd (use M e []))" using use_trace[of M e t] assms by simp
  then show ?thesis by simp
qed

text \<open>
  Claim C1, as amended. For an array of extensions none of which throws, \<^verbatim>\<open>use\<close> attempts
  the extensions in order up to and including the first one whose result is \<^verbatim>\<open>false\<close>,
  attempts none after it, and returns the conjunction of the individual results.
\<close>

theorem use_array_until_first_failure:
  assumes "\<forall>e \<in> set es. \<exists>b. fst (use M e []) = Inr b"
  shows "use M (JArr es) t =
    (Inr (list_all (succeeds M) es), t @ concat (map (\<lambda>e. snd (use M e [])) (attempted M es)))"
proof -
  have "use_reduce M True es t =
    (Inr (list_all (succeeds M) es), t @ concat (map (\<lambda>e. snd (use M e [])) (attempted M es)))"
    using assms
  proof (induction es arbitrary: t)
    case Nil
    show ?case by (simp add: attempted_def)
  next
    case (Cons e es)
    then obtain b where b: "fst (use M e []) = Inr b" by auto
    show ?case
    proof (cases b)
      case True
      then have s: "succeeds M e" using b by (simp add: succeeds_def)
      have "use_reduce M True (e # es) t = use_reduce M True es (t @ snd (use M e []))"
        using use_reduce_Cons[OF b] True by simp
      also have "\<dots> = (Inr (list_all (succeeds M) es),
          (t @ snd (use M e [])) @ concat (map (\<lambda>e. snd (use M e [])) (attempted M es)))"
        using Cons by simp
      finally show ?thesis using s by (simp add: attempted_def)
    next
      case False
      then have s: "\<not> succeeds M e" using b by (simp add: succeeds_def)
      have "use_reduce M True (e # es) t = use_reduce M False es (t @ snd (use M e []))"
        using use_reduce_Cons[OF b] False by simp
      then show ?thesis using s by (simp add: use_reduce_False attempted_def)
    qed
  qed
  then show ?thesis by simp
qed

theorem use_array_until_first_failure_witness:
  "fst (use Model (JFun SoftRemoves) []) = Inr True \<and>
   fst (use Model JNull []) = Inr False \<and>
   fst (use Model (JFun Timestamps) []) = Inr True \<and>
   use Model (JArr [JFun SoftRemoves, JNull, JFun Timestamps]) [] =
     (Inr False, [Instantiated ''SoftRemoves'' ''Model'', Applied ''SoftRemoves''])"
proof -
  have h: "\<forall>e \<in> set [JFun SoftRemoves, JNull, JFun Timestamps]. \<exists>b. fst (use Model e []) = Inr b"
    by (auto simp add: SoftRemoves_def Timestamps_def call_apply_def instance_truthy_def)
  show ?thesis
    using use_array_until_first_failure[OF h, of "[]"]
    by (simp add: succeeds_def attempted_def SoftRemoves_def Timestamps_def call_apply_def
        instance_truthy_def Model_def)
qed

text \<open>
  Claim C1, as stated, fails: in \<^verbatim>\<open>use([null, SoftRemoves])\<close> the first element yields
  \<^verbatim>\<open>false\<close> and \<^verbatim>\<open>SoftRemoves\<close>, which on its own is instantiated and applied, is neither.
\<close>

theorem use_array_later_extension_skipped:
  "use Model (JArr [JNull, JFun SoftRemoves]) [] = (Inr False, []) \<and>
   use Model (JFun SoftRemoves) [] =
     (Inr True, [Instantiated ''SoftRemoves'' ''Model'', Applied ''SoftRemoves''])"
  by (simp add: SoftRemoves_def call_apply_def instance_truthy_def Model_def)

text \<open>
  Claim C2 on the code: the capability check never rejects. A constructible class whose
  instances are not extensions and have no \<^verbatim>\<open>apply\<close> makes \<^verbatim>\<open>use\<close> throw a type error;
  one whose instances are not extensions but have an \<^verbatim>\<open>apply\<close> gets it invoked; a
  function that is not constructible makes \<^verbatim>\<open>use\<close> throw as well.
\<close>

theorem use_capability_check_never_fires:
  "use Model (JFun PlainClass) [] =
     (Inl (TypeError ''extension.apply is not a function''), [Instantiated ''PlainClass'' ''Model'']) \<and>
   use Model (JFun Impostor) [] =
     (Inr True, [Instantiated ''Impostor'' ''Model'', Applied ''Impostor'']) \<and>
   use Model (JFun ArrowFunction) [] = (Inl (TypeError ''extension is not a constructor''), [])"
  by (simp add: PlainClass_def Impostor_def call_apply_def instance_truthy_def Model_def)


section \<open>Auxiliary facts\<close>

subsection \<open>Property lists\<close>

lemma own_props_guard: "(if is_object v then own_props v else []) = own_props v"
  by (cases v) simp_all






subsection \<open>Storage calls, construction and hydration\<close>

lemma perform_eq:
  "perform eng h c w =
     (fst (eng h c (db w)), w\<lparr>calls := calls w @ [(h, c)], db := snd (eng h c (db w))\<rparr>)"
  by (simp add: perform_def split: prod.splits)

lemma new_model_eq:
  "new_model M v w =
     (length (heap w),
      w\<lparr>heap := heap w @ [\<lparr>inst_class = M, inst_fields = assign_fields [] (own_props v)\<rparr>]\<rparr>)"
  by (simp add: new_model_def assign_def Let_def own_props_guard)

lemma convert_all_eq:
  "convert_all M rs w =
     ([length (heap w) ..< length (heap w) + length rs],
      w\<lparr>heap := heap w @
         map (\<lambda>r. \<lparr>inst_class = M, inst_fields = assign_fields [] (own_props r)\<rparr>) rs\<rparr>)"
proof (induction rs arbitrary: w)
  case Nil
  show ?case by simp
next
  case (Cons r rs)
  have u: "[length (heap w) ..< length (heap w) + length (r # rs)] =
    length (heap w) # [Suc (length (heap w)) ..< Suc (length (heap w)) + length rs]"
    by (subst upt_rec) simp
  show ?case unfolding u by (simp add: new_model_eq Cons.IH del: upt_Suc)
qed

lemma hydrate_Inl: "hydrate M (Inl e, w) = (Inl e, w)"
  by (simp add: hydrate_def)

lemma hydrate_obj:
  "hydrate M (Inr (JObj r), w) =
     (Inr (Inst (length (heap w))),
      w\<lparr>heap := heap w @ [\<lparr>inst_class = M, inst_fields = assign_fields [] r\<rparr>]\<rparr>)"
  by (simp add: hydrate_def converter_def new_model_eq)

lemma hydrate_arr:
  "hydrate M (Inr (JArr rs), w) =
     (Inr (Insts [length (heap w) ..< length (heap w) + length rs]),
      w\<lparr>heap := heap w @
         map (\<lambda>r. \<lparr>inst_class = M, inst_fields = assign_fields [] (own_props r)\<rparr>) rs\<rparr>)"
  by (simp add: hydrate_def converter_def convert_all_eq)

lemma hydrate_scalar:
  "\<not> is_object raw \<Longrightarrow> hydrate M (Inr raw, w) = (Inr (Raw raw), w)"
  by (cases raw) (simp_all add: hydrate_def converter_def)

lemma hydrate_frame:
  "calls (snd (hydrate M (r, w))) = calls w \<and> db (snd (hydrate M (r, w))) = db w \<and>
   take (length (heap w)) (heap (snd (hydrate M (r, w)))) = heap w"
proof (cases r)
  case (Inl e)
  then show ?thesis by (simp add: hydrate_Inl)
next
  case (Inr raw)
  then show ?thesis
    by (cases raw) (simp_all add: hydrate_obj hydrate_arr hydrate_scalar)
qed


lemma hydrate_calls: "calls (snd (hydrate M (r, w))) = calls w"
  using hydrate_frame[of M r w] by blast

lemma hydrate_db: "db (snd (hydrate M (r, w))) = db w"
  using hydrate_frame[of M r w] by blast


lemma calls_hydrate_perform:
  "calls (snd (hydrate M (perform eng h c w))) = calls w @ [(h, c)]"
  by (simp add: perform_eq hydrate_calls)

lemma assign_calls: "calls (assign this vals w) = calls w"
  by (simp add: assign_def Let_def)

lemma map_of_filter_other:
  "k \<noteq> d \<Longrightarrow> map_of (filter (\<lambda>(k', v). map_of [(d, x)] k' = None) os) k = map_of os k"
  by (induction os) auto

subsection \<open>Snapshots and frames\<close>




subsection \<open>Member lookup and static dispatch\<close>

lemma call_toPOJO_plain:
  "map_of (inst_fields (heap w ! this)) ''toPOJO'' = None \<Longrightarrow>
     call_toPOJO this w = Inr (JObj (toPOJO this w))"
  by (simp add: call_toPOJO_def)

lemma call_class_static_plain:
  assumes "unshadowed this w [''constructor'', ''getClass'']"
  shows "call_class_static ov eng this n (Inr as) w =
    class_static ov eng (inst_class (heap w ! this)) n as w"
  using assms
  by (simp add: unshadowed_def call_class_static_def call_getClass_def getClass_def
      static_member_def)

lemma call_assign_plain:
  "map_of (inst_fields (heap w ! this)) ''assign'' = None \<Longrightarrow>
     call_assign this vals w = Inr (assign this vals w)"
  by (simp add: call_assign_def)


lemma inherited_insert:
  "ov M Insert_static = None \<Longrightarrow>
     class_static ov eng M Insert_static [v] w = Model_insert M eng v w"
  by (simp add: class_static_def nth_arg_def)



lemma call_assign_calls: "call_assign this vals w = Inr w2 \<Longrightarrow> calls w2 = calls w"
  by (auto simp add: call_assign_def assign_calls split: option.splits sum.splits)

lemma assign_and_return_calls:
  "calls (snd (assign_and_return this (r, w))) = calls w"
proof (cases r)
  case (Inl e)
  then show ?thesis by (simp add: assign_and_return_def)
next
  case (Inr result)
  show ?thesis
  proof (cases "call_assign this (first_or_self result) w")
    case (Inl e)
    then show ?thesis using Inr by (simp add: assign_and_return_def)
  next
    case r2: (Inr w2)
    then show ?thesis using Inr call_assign_calls[OF r2] by (simp add: assign_and_return_def)
  qed
qed

lemma save_dispatch:
  assumes "unshadowed this w [''constructor'', ''getClass'', ''toPOJO'']"
  shows "save ov eng this w =
    assign_and_return this
      (if truthy (get_prop (inst_fields (heap w ! this)) ''_id'')
       then class_static ov eng (inst_class (heap w ! this)) Update_static
              [JObj [(''_id'', get_prop (inst_fields (heap w ! this)) ''_id'')],
               JObj [(''$set'', JObj (toPOJO this w))],
               JObj [(''returnUpdatedDocs'', JBool True)]] w
       else class_static ov eng (inst_class (heap w ! this)) Insert_static
              [JObj (toPOJO this w)] w)"
proof -
  have u: "unshadowed this w [''constructor'', ''getClass'']"
    and t: "map_of (inst_fields (heap w ! this)) ''toPOJO'' = None"
    using assms by (simp_all add: unshadowed_def)
  show ?thesis
    by (simp add: save_def Let_def call_toPOJO_plain[OF t] call_class_static_plain[OF u])
qed


section \<open>Properties of \<^verbatim>\<open>Model.update\<close> and \<^verbatim>\<open>Model.remove\<close>\<close>

text \<open>
  Claim C3, as amended. For every call \<^verbatim>\<open>Model.update(query, values, options)\<close> the storage
  engine receives exactly one call, an update whose query is the caller's query as given
  (\<^verbatim>\<open>{}\<close> when the caller passes none): the query default of the model type is not merged
  into it. The options are the caller's merged over \<^verbatim>\<open>{multi: true}\<close>.
\<close>

theorem update_query_passed_as_given:
  "calls (snd (Model_update M eng query vals options w)) =
     calls w @ [(datastore M, CUpdate (default_param query (JObj [])) vals
                   (augmenter [(''multi'', JBool True)] options))]"
  by (simp add: Model_update_def Let_def calls_hydrate_perform)

text \<open>The amended claim C3 on \<^verbatim>\<open>Book.update(undefined, \<dots>, {multi: false})\<close>.\<close>

theorem update_query_passed_as_given_witness:
  "calls (snd (Model_update Book (answering (JNum 2)) JUndefined
       (JObj [(''$set'', JObj [(''read'', JBool True)])]) (JObj [(''multi'', JBool False)])
       (world_of []))) =
     [(''Book'', CUpdate (JObj []) (JObj [(''$set'', JObj [(''read'', JBool True)])])
         (JObj [(''multi'', JBool False)]))]"
  using update_query_passed_as_given[of Book "answering (JNum 2)" JUndefined
      "JObj [(''$set'', JObj [(''read'', JBool True)])]" "JObj [(''multi'', JBool False)]"
      "world_of []"]
  by (simp add: world_of_def datastore_def Book_def default_param_def augmenter_def)

text \<open>
  Claim C3, as stated, fails: for \<^verbatim>\<open>Book\<close>, whose query default is \<^verbatim>\<open>{deleted: false}\<close>,
  \<^verbatim>\<open>Book.update({title: 'A'}, \<dots>)\<close> passes \<^verbatim>\<open>{title: 'A'}\<close> to the storage engine, while the
  merge of the default with that query is \<^verbatim>\<open>{deleted: false, title: 'A'}\<close>.
\<close>

theorem update_query_default_not_merged:
  "calls (snd (Model_update Book (answering (JNum 1)) (JObj [(''title'', JStr ''A'')])
       (JObj [(''$set'', JObj [(''read'', JBool True)])]) JUndefined (world_of []))) =
     [(''Book'', CUpdate (JObj [(''title'', JStr ''A'')])
         (JObj [(''$set'', JObj [(''read'', JBool True)])]) (JObj [(''multi'', JBool True)]))] \<and>
   augmenter (query_defaults Book) (JObj [(''title'', JStr ''A'')]) =
     JObj [(''deleted'', JBool False), (''title'', JStr ''A'')]"
  by (simp add: Model_update_def Let_def calls_hydrate_perform Book_def world_of_def
      datastore_def augmenter_def default_param_def)

text \<open>
  Claim C4. \<^verbatim>\<open>Model.update\<close> and \<^verbatim>\<open>Model.remove\<close> pass to the storage engine the caller's
  options merged over the default \<^verbatim>\<open>{multi: true}\<close>. With no options the engine receives
  \<^verbatim>\<open>{multi: true}\<close>; with \<^verbatim>\<open>{multi: false}\<close> it receives \<^verbatim>\<open>{multi: false}\<close>; in general
  the \<^verbatim>\<open>multi\<close> it receives is the caller's unless that is absent, \<^verbatim>\<open>null\<close> or
  \<^verbatim>\<open>undefined\<close>, and every other option of the caller is passed on unchanged. How many
  records a call with these options affects is decided by the storage engine.
\<close>

theorem update_remove_options_over_multi_default:
  "calls (snd (Model_update M eng query vals options w)) =
     calls w @ [(datastore M, CUpdate (default_param query (JObj [])) vals
                   (augmenter [(''multi'', JBool True)] options))] \<and>
   calls (snd (Model_remove M eng query options w)) =
     calls w @ [(datastore M, CRemove (default_param query (JObj []))
                   (augmenter [(''multi'', JBool True)] options))] \<and>
   augmenter [(''multi'', JBool True)] JUndefined = JObj [(''multi'', JBool True)] \<and>
   augmenter [(''multi'', JBool True)] (JObj [(''multi'', JBool False)]) =
     JObj [(''multi'', JBool False)] \<and>
   get_prop (own_props (augmenter [(''multi'', JBool True)] options)) ''multi'' =
     (case options of
        JObj os \<Rightarrow> (case map_of os ''multi'' of
                      None \<Rightarrow> JBool True
                    | Some v \<Rightarrow> if v = JUndefined \<or> v = JNull then JBool True else v)
      | _ \<Rightarrow> JBool True) \<and>
   (k \<noteq> ''multi'' \<longrightarrow>
      get_prop (own_props (augmenter [(''multi'', JBool True)] (JObj given))) k =
        get_prop given k)"
proof -
  have a: "calls (snd (Model_update M eng query vals options w)) =
     calls w @ [(datastore M, CUpdate (default_param query (JObj [])) vals
                   (augmenter [(''multi'', JBool True)] options))]"
    by (simp add: Model_update_def Let_def calls_hydrate_perform)
  have b: "calls (snd (Model_remove M eng query options w)) =
     calls w @ [(datastore M, CRemove (default_param query (JObj []))
                   (augmenter [(''multi'', JBool True)] options))]"
    by (simp add: Model_remove_def Let_def calls_hydrate_perform)
  have c: "augmenter [(''multi'', JBool True)] JUndefined = JObj [(''multi'', JBool True)]"
    by (simp add: augmenter_def)
  have d: "augmenter [(''multi'', JBool True)] (JObj [(''multi'', JBool False)]) =
     JObj [(''multi'', JBool False)]"
    by (simp add: augmenter_def)
  have mv: "merge_value (JBool True) v = (if v = JUndefined \<or> v = JNull then JBool True else v)" for v
    by (cases v) simp_all
  have e: "get_prop (own_props (augmenter [(''multi'', JBool True)] options)) ''multi'' =
     (case options of
        JObj os \<Rightarrow> (case map_of os ''multi'' of
                      None \<Rightarrow> JBool True
                    | Some v \<Rightarrow> if v = JUndefined \<or> v = JNull then JBool True else v)
      | _ \<Rightarrow> JBool True)"
    by (cases options) (simp_all add: augmenter_def get_prop_def mv split: option.splits)
  have f: "k \<noteq> ''multi'' \<longrightarrow>
      get_prop (own_props (augmenter [(''multi'', JBool True)] (JObj given))) k =
        get_prop given k"
    using map_of_filter_other[of k "''multi''" "JBool True" given]
    by (simp add: augmenter_def get_prop_def)
  from a b c d e f show ?thesis by blast
qed


text \<open>The options of claim C4 on \<^verbatim>\<open>Book.remove({title: 'A'}, {multi: false})\<close>.\<close>

theorem update_remove_options_over_multi_default_witness:
  "''returnUpdatedDocs'' \<noteq> ''multi'' \<and>
   calls (snd (Model_remove Book (answering (JNum 1)) (JObj [(''title'', JStr ''A'')])
       (JObj [(''multi'', JBool False)]) (world_of []))) =
     [(''Book'', CRemove (JObj [(''title'', JStr ''A'')]) (JObj [(''multi'', JBool False)]))] \<and>
   get_prop (own_props (augmenter [(''multi'', JBool True)]
       (JObj [(''returnUpdatedDocs'', JBool True)]))) ''returnUpdatedDocs'' = JBool True"
  using update_remove_options_over_multi_default[of Book "answering (JNum 1)"
      "JObj [(''title'', JStr ''A'')]" JUndefined "JObj [(''multi'', JBool False)]" "world_of []"
      "''returnUpdatedDocs''" "[(''returnUpdatedDocs'', JBool True)]"]
  by (simp add: Book_def world_of_def datastore_def default_param_def get_prop_def)

section \<open>Properties of \<^verbatim>\<open>Model.insert\<close> and \<^verbatim>\<open>Model.find\<close>\<close>

text \<open>
  Claim C7. \<^verbatim>\<open>Model.insert\<close> makes one storage call. Given a sequence, it inserts the
  sequence of its elements each merged over the values default, in the same order; given
  anything else, it inserts that value merged over the values default. When the engine
  answers a single value with a record, the result is one new instance constructed from
  that record; when it answers a sequence with a sequence, the result is the sequence of
  new instances constructed from its elements, one per element and in their order.
\<close>

theorem insert_shape_and_order:
  "calls (snd (Model_insert M eng (JArr xs) w)) =
     calls w @ [(datastore M, CInsert (JArr (map (augmenter (values_defaults M)) xs)))] \<and>
   (\<not> isArray v \<longrightarrow>
      calls (snd (Model_insert M eng v w)) =
        calls w @ [(datastore M, CInsert (augmenter (values_defaults M) v))]) \<and>
   (\<not> isArray v \<and>
    eng (datastore M) (CInsert (augmenter (values_defaults M) v)) (db w) = (Inr (JObj r), d) \<longrightarrow>
      Model_insert M eng v w =
        (Inr (Inst (length (heap w))),
         w\<lparr>heap := heap w @ [\<lparr>inst_class = M, inst_fields = assign_fields [] r\<rparr>],
           calls := calls w @ [(datastore M, CInsert (augmenter (values_defaults M) v))],
           db := d\<rparr>)) \<and>
   (eng (datastore M) (CInsert (JArr (map (augmenter (values_defaults M)) xs))) (db w) =
      (Inr (JArr rs), d) \<longrightarrow>
      Model_insert M eng (JArr xs) w =
        (Inr (Insts [length (heap w) ..< length (heap w) + length rs]),
         w\<lparr>heap := heap w @
              map (\<lambda>r. \<lparr>inst_class = M, inst_fields = assign_fields [] (own_props r)\<rparr>) rs,
           calls := calls w @
              [(datastore M, CInsert (JArr (map (augmenter (values_defaults M)) xs)))],
           db := d\<rparr>))"
proof -
  let ?aug = "augmenter (values_defaults M)"
  have arr: "Model_insert M eng (JArr xs) w =
    hydrate M (perform eng (datastore M) (CInsert (JArr (map ?aug xs))) w)"
    by (simp add: Model_insert_def Let_def)
  have one: "\<not> isArray v \<Longrightarrow> Model_insert M eng v w =
    hydrate M (perform eng (datastore M) (CInsert (?aug v)) w)"
    by (cases v) (simp_all add: Model_insert_def Let_def)
  have a: "calls (snd (Model_insert M eng (JArr xs) w)) =
     calls w @ [(datastore M, CInsert (JArr (map ?aug xs)))]"
    by (simp only: arr calls_hydrate_perform)
  have b: "\<not> isArray v \<longrightarrow> calls (snd (Model_insert M eng v w)) =
        calls w @ [(datastore M, CInsert (?aug v))]"
    using one by (simp add: calls_hydrate_perform)
  have c: "\<not> isArray v \<and> eng (datastore M) (CInsert (?aug v)) (db w) = (Inr (JObj r), d) \<longrightarrow>
      Model_insert M eng v w =
        (Inr (Inst (length (heap w))),
         w\<lparr>heap := heap w @ [\<lparr>inst_class = M, inst_fields = assign_fields [] r\<rparr>],
           calls := calls w @ [(datastore M, CInsert (?aug v))], db := d\<rparr>)"
    using one by (simp add: perform_eq hydrate_obj)
  have d: "eng (datastore M) (CInsert (JArr (map ?aug xs))) (db w) = (Inr (JArr rs), d) \<longrightarrow>
      Model_insert M eng (JArr xs) w =
        (Inr (Insts [length (heap w) ..< length (heap w) + length rs]),
         w\<lparr>heap := heap w @
              map (\<lambda>r. \<lparr>inst_class = M, inst_fields = assign_fields [] (own_props r)\<rparr>) rs,
           calls := calls w @ [(datastore M, CInsert (JArr (map ?aug xs)))], db := d\<rparr>)"
    by (simp add: arr perform_eq hydrate_arr)
  from a b c d show ?thesis by blast
qed

text \<open>Claim C7 on \<^verbatim>\<open>Book.insert({title: 'A'})\<close> and \<^verbatim>\<open>Book.insert([{title: 'A'}, {title: 'B'}])\<close>.\<close>

theorem insert_shape_and_order_witness:
  "\<not> isArray (JObj [(''title'', JStr ''A'')]) \<and>
   Model_insert Book (answering (JObj [(''_id'', JStr ''x1''), (''title'', JStr ''A'')]))
       (JObj [(''title'', JStr ''A'')]) (world_of []) =
     (Inr (Inst 0),
      \<lparr>heap = [\<lparr>inst_class = Book,
                inst_fields = [(''_id'', JStr ''x1''), (''title'', JStr ''A'')]\<rparr>],
       calls = [(''Book'', CInsert (JObj [(''pages'', JNum 0), (''title'', JStr ''A'')]))],
       db = ()\<rparr>) \<and>
   Model_insert Book (answering (JArr [JObj [(''_id'', JStr ''x1'')], JObj [(''_id'', JStr ''x2'')]]))
       (JArr [JObj [(''title'', JStr ''A'')], JObj [(''title'', JStr ''B'')]]) (world_of []) =
     (Inr (Insts [0, 1]),
      \<lparr>heap = [\<lparr>inst_class = Book, inst_fields = [(''_id'', JStr ''x1'')]\<rparr>,
               \<lparr>inst_class = Book, inst_fields = [(''_id'', JStr ''x2'')]\<rparr>],
       calls = [(''Book'', CInsert (JArr [JObj [(''pages'', JNum 0), (''title'', JStr ''A'')],
                                          JObj [(''pages'', JNum 0), (''title'', JStr ''B'')]]))],
       db = ()\<rparr>)"
  using insert_shape_and_order[of Book "answering (JObj [(''_id'', JStr ''x1''), (''title'', JStr ''A'')])"
      "[]" "world_of []" "JObj [(''title'', JStr ''A'')]"
      "[(''_id'', JStr ''x1''), (''title'', JStr ''A'')]" "()" "[]"]
    insert_shape_and_order[of Book
      "answering (JArr [JObj [(''_id'', JStr ''x1'')], JObj [(''_id'', JStr ''x2'')]])"
      "[JObj [(''title'', JStr ''A'')], JObj [(''title'', JStr ''B'')]]" "world_of []" JNull
      "[]" "()" "[JObj [(''_id'', JStr ''x1'')], JObj [(''_id'', JStr ''x2'')]]"]
  by (simp add: world_of_def answering_def datastore_def Book_def augmenter_def set_prop_def
      upt_rec)

text \<open>
  Claim C8. \<^verbatim>\<open>Model.find(query, projection)\<close> returns a cursor over the query and the
  projection merged over the defaults of the type; the world after it differs from the
  world before only by the record of the cursor's construction, so nothing was executed;
  and \<^verbatim>\<open>exec\<close> of the returned cursor is the engine's execution followed by hydration.
  Each of \<^verbatim>\<open>findOne\<close>, \<^verbatim>\<open>count\<close>, \<^verbatim>\<open>insert\<close>, \<^verbatim>\<open>update\<close> and \<^verbatim>\<open>remove\<close> executes its
  storage call at once.
\<close>

theorem find_is_lazy_and_hydrating:
  "(let q = augmenter (query_defaults M) (default_param query (JObj []));
        p = augmenter (projection_defaults M) projection
    in cursor_query (fst (Model_find M eng query projection w)) = q \<and>
       cursor_projection (fst (Model_find M eng query projection w)) = p \<and>
       snd (Model_find M eng query projection w) =
         w\<lparr>calls := calls w @ [(datastore M, CFind q p)]\<rparr> \<and>
       exec (fst (Model_find M eng query projection w)) w' =
         hydrate M (perform eng (datastore M) (CExec q p) w') \<and>
       calls (snd (Model_findOne M eng query projection w)) =
         calls w @ [(datastore M, CFindOne q p)] \<and>
       db (snd (Model_findOne M eng query projection w)) =
         snd (eng (datastore M) (CFindOne q p) (db w)) \<and>
       calls (snd (Model_count M eng query w)) = calls w @ [(datastore M, CCount q)] \<and>
       db (snd (Model_count M eng query w)) = snd (eng (datastore M) (CCount q) (db w))) \<and>
   (let c = CInsert (case vals of JArr xs \<Rightarrow> JArr (map (augmenter (values_defaults M)) xs)
                                | _ \<Rightarrow> augmenter (values_defaults M) vals)
    in calls (snd (Model_insert M eng vals w)) = calls w @ [(datastore M, c)] \<and>
       db (snd (Model_insert M eng vals w)) = snd (eng (datastore M) c (db w))) \<and>
   (let c = CUpdate (default_param query (JObj [])) vals (augmenter [(''multi'', JBool True)] options)
    in calls (snd (Model_update M eng query vals options w)) = calls w @ [(datastore M, c)] \<and>
       db (snd (Model_update M eng query vals options w)) = snd (eng (datastore M) c (db w))) \<and>
   (let c = CRemove (default_param query (JObj [])) (augmenter [(''multi'', JBool True)] options)
    in calls (snd (Model_remove M eng query options w)) = calls w @ [(datastore M, c)] \<and>
       db (snd (Model_remove M eng query options w)) = snd (eng (datastore M) c (db w)))"
proof -
  have dbp: "db (snd (hydrate M (perform eng h c w))) = snd (eng h c (db w))" for h c
    by (simp add: perform_eq hydrate_db)
  have f: "Model_find M eng query projection w =
    (\<lparr>cursor_query = augmenter (query_defaults M) (default_param query (JObj [])),
      cursor_projection = augmenter (projection_defaults M) projection,
      exec = (\<lambda>w'. hydrate M (perform eng (datastore M)
                (CExec (augmenter (query_defaults M) (default_param query (JObj [])))
                       (augmenter (projection_defaults M) projection)) w'))\<rparr>,
     w\<lparr>calls := calls w @ [(datastore M,
          CFind (augmenter (query_defaults M) (default_param query (JObj [])))
                (augmenter (projection_defaults M) projection))]\<rparr>)"
    by (simp add: Model_find_def handle_find_def Let_def)
  have a: "(let q = augmenter (query_defaults M) (default_param query (JObj []));
        p = augmenter (projection_defaults M) projection
    in cursor_query (fst (Model_find M eng query projection w)) = q \<and>
       cursor_projection (fst (Model_find M eng query projection w)) = p \<and>
       snd (Model_find M eng query projection w) =
         w\<lparr>calls := calls w @ [(datastore M, CFind q p)]\<rparr> \<and>
       exec (fst (Model_find M eng query projection w)) w' =
         hydrate M (perform eng (datastore M) (CExec q p) w') \<and>
       calls (snd (Model_findOne M eng query projection w)) =
         calls w @ [(datastore M, CFindOne q p)] \<and>
       db (snd (Model_findOne M eng query projection w)) =
         snd (eng (datastore M) (CFindOne q p) (db w)) \<and>
       calls (snd (Model_count M eng query w)) = calls w @ [(datastore M, CCount q)] \<and>
       db (snd (Model_count M eng query w)) = snd (eng (datastore M) (CCount q) (db w)))"
    unfolding f by (simp add: Let_def Model_findOne_def Model_count_def calls_hydrate_perform dbp)
  have b: "(let c = CInsert (case vals of JArr xs \<Rightarrow> JArr (map (augmenter (values_defaults M)) xs)
                                | _ \<Rightarrow> augmenter (values_defaults M) vals)
    in calls (snd (Model_insert M eng vals w)) = calls w @ [(datastore M, c)] \<and>
       db (snd (Model_insert M eng vals w)) = snd (eng (datastore M) c (db w)))"
    by (simp add: Let_def Model_insert_def calls_hydrate_perform dbp)
  have c: "(let c = CUpdate (default_param query (JObj [])) vals (augmenter [(''multi'', JBool True)] options)
    in calls (snd (Model_update M eng query vals options w)) = calls w @ [(datastore M, c)] \<and>
       db (snd (Model_update M eng query vals options w)) = snd (eng (datastore M) c (db w)))"
    by (simp add: Let_def Model_update_def calls_hydrate_perform dbp)
  have d: "(let c = CRemove (default_param query (JObj [])) (augmenter [(''multi'', JBool True)] options)
    in calls (snd (Model_remove M eng query options w)) = calls w @ [(datastore M, c)] \<and>
       db (snd (Model_remove M eng query options w)) = snd (eng (datastore M) c (db w)))"
    by (simp add: Let_def Model_remove_def calls_hydrate_perform dbp)
  from a b c d show ?thesis by blast
qed


text \<open>Claim C8 on \<^verbatim>\<open>Book.find()\<close> and on the execution of its cursor.\<close>

theorem find_is_lazy_and_hydrating_witness:
  "snd (Model_find Book (answering (JArr [JObj [(''_id'', JStr ''b1'')]])) JUndefined JUndefined
       (world_of [])) =
     \<lparr>heap = [],
      calls = [(''Book'', CFind (JObj [(''deleted'', JBool False)]) (JObj [(''title'', JNum 1)]))],
      db = ()\<rparr> \<and>
   exec (fst (Model_find Book (answering (JArr [JObj [(''_id'', JStr ''b1'')]])) JUndefined
       JUndefined (world_of []))) (world_of []) =
     (Inr (Insts [0]),
      \<lparr>heap = [\<lparr>inst_class = Book, inst_fields = [(''_id'', JStr ''b1'')]\<rparr>],
       calls = [(''Book'', CExec (JObj [(''deleted'', JBool False)]) (JObj [(''title'', JNum 1)]))],
       db = ()\<rparr>)"
  using find_is_lazy_and_hydrating[of Book JUndefined JUndefined
      "answering (JArr [JObj [(''_id'', JStr ''b1'')]])" "world_of []" "world_of []"]
  by (simp add: Let_def world_of_def datastore_def Book_def default_param_def augmenter_def
      perform_def answering_def hydrate_def converter_def new_model_def assign_def set_prop_def)

section \<open>Properties of the instance methods\<close>




text \<open>
  Claim C10. Whenever \<^verbatim>\<open>this._id\<close> is falsy, be it absent or one of \<^verbatim>\<open>undefined\<close>,
  \<^verbatim>\<open>null\<close>, \<^verbatim>\<open>0\<close>, the empty string and \<^verbatim>\<open>false\<close>, \<^verbatim>\<open>remove()\<close> returns \<^verbatim>\<open>0\<close> without
  a storage call, and \<^verbatim>\<open>save()\<close> takes the insert path: it is the evaluation of
  \<^verbatim>\<open>this.getClass().insert(this.toPOJO())\<close> followed by the assignment of the result, and
  it is the same whatever the static \<^verbatim>\<open>update\<close> of any class is. On an instance with no
  own field named \<^verbatim>\<open>constructor\<close>, \<^verbatim>\<open>getClass\<close> or \<^verbatim>\<open>toPOJO\<close> that is the call of the
  static \<^verbatim>\<open>insert\<close> of its class on the current fields, and for a class that inherits
  \<^verbatim>\<open>Model.insert\<close> the one storage call made is the insert of the current fields merged
  over the values default.
\<close>

theorem falsy_identifier_is_transient:
  assumes valid: "this < length (heap w)"
    and falsy: "\<not> truthy (get_prop (inst_fields (heap w ! this)) ''_id'')"
  shows "remove ov eng this w = (Inr (Raw (JNum 0)), w) \<and>
    save ov eng this w =
      assign_and_return this
        (call_class_static ov eng this Insert_static
           (case call_toPOJO this w of Inl e \<Rightarrow> Inl e | Inr pojo \<Rightarrow> Inr [pojo]) w) \<and>
    save (\<lambda>M n. if n = Update_static then u M else ov M n) eng this w = save ov eng this w \<and>
    (unshadowed this w [''constructor'', ''getClass'', ''toPOJO''] \<longrightarrow>
       save ov eng this w =
         assign_and_return this
           (class_static ov eng (inst_class (heap w ! this)) Insert_static
              [JObj (toPOJO this w)] w) \<and>
       (ov (inst_class (heap w ! this)) Insert_static = None \<longrightarrow>
          calls (snd (save ov eng this w)) =
            calls w @ [(datastore (inst_class (heap w ! this)),
               CInsert (augmenter (values_defaults (inst_class (heap w ! this)))
                          (JObj (toPOJO this w))))])) \<and>
    \<not> truthy JUndefined \<and> \<not> truthy JNull \<and> \<not> truthy (JNum 0) \<and> \<not> truthy (JStr []) \<and>
    \<not> truthy (JBool False)"
proof -
  let ?M = "inst_class (heap w ! this)"
  let ?c = "CInsert (augmenter (values_defaults ?M) (JObj (toPOJO this w)))"
  have a: "remove ov eng this w = (Inr (Raw (JNum 0)), w)"
    using falsy by (simp add: remove_def Let_def)
  have sm: "static_member (\<lambda>M n. if n = Update_static then u M else ov M n) eng c Insert_static =
    static_member ov eng c Insert_static" for c
    by (cases c) (simp_all add: static_member_def class_static_def)
  have b: "save (\<lambda>M n. if n = Update_static then u M else ov M n) eng this w = save ov eng this w"
    using falsy by (simp add: save_def Let_def call_class_static_def sm split: sum.splits)
  have c: "unshadowed this w [''constructor'', ''getClass'', ''toPOJO''] \<longrightarrow>
       save ov eng this w =
         assign_and_return this (class_static ov eng ?M Insert_static [JObj (toPOJO this w)] w) \<and>
       (ov ?M Insert_static = None \<longrightarrow>
          calls (snd (save ov eng this w)) = calls w @ [(datastore ?M, ?c)])"
  proof (intro impI conjI)
    assume three: "unshadowed this w [''constructor'', ''getClass'', ''toPOJO'']"
    show g: "save ov eng this w =
      assign_and_return this (class_static ov eng ?M Insert_static [JObj (toPOJO this w)] w)"
      using save_dispatch[OF three, of ov eng] falsy by simp
    assume inh: "ov ?M Insert_static = None"
    have "save ov eng this w =
      assign_and_return this (hydrate ?M (perform eng (datastore ?M) ?c w))"
      using inh by (simp add: g inherited_insert Model_insert_def Let_def)
    then have "calls (snd (save ov eng this w)) =
      calls (snd (hydrate ?M (perform eng (datastore ?M) ?c w)))"
      using assign_and_return_calls[of this "fst (hydrate ?M (perform eng (datastore ?M) ?c w))"
          "snd (hydrate ?M (perform eng (datastore ?M) ?c w))"]
      by simp
    then show "calls (snd (save ov eng this w)) = calls w @ [(datastore ?M, ?c)]"
      by (simp only: calls_hydrate_perform)
  qed
  have f: "\<not> truthy JUndefined \<and> \<not> truthy JNull \<and> \<not> truthy (JNum 0) \<and>
    \<not> truthy (JStr []) \<and> \<not> truthy (JBool False)"
    by simp
  have arm: "save ov eng this w =
      assign_and_return this
        (call_class_static ov eng this Insert_static
           (case call_toPOJO this w of Inl e \<Rightarrow> Inl e | Inr pojo \<Rightarrow> Inr [pojo]) w)"
    using falsy by (simp add: save_def Let_def)
  from a arm b c f show ?thesis by blast
qed

text \<open>Claim C10 on the third book of the shelf, whose \<^verbatim>\<open>_id\<close> is \<^verbatim>\<open>0\<close>.\<close>

theorem falsy_identifier_is_transient_witness:
  "(2::nat) < length (heap (world_of shelf)) \<and>
   \<not> truthy (get_prop (inst_fields (heap (world_of shelf) ! 2)) ''_id'') \<and>
   unshadowed 2 (world_of shelf) [''constructor'', ''getClass'', ''toPOJO''] \<and>
   no_overrides (inst_class (heap (world_of shelf) ! 2)) Insert_static = None \<and>
   remove no_overrides (answering (JNum 1)) 2 (world_of shelf) =
     (Inr (Raw (JNum 0)), world_of shelf) \<and>
   calls (snd (save no_overrides (answering (JNum 1)) 2 (world_of shelf))) =
     [(''Book'', CInsert (JObj [(''pages'', JNum 0), (''_id'', JNum 0), (''title'', JStr ''C'')]))]"
proof -
  have h: "\<not> truthy (get_prop (inst_fields (heap (world_of shelf) ! 2)) ''_id'')"
    by (simp add: world_of_def shelf_def get_prop_def)
  have v: "(2::nat) < length (heap (world_of shelf))"
    by (simp add: world_of_def shelf_def)
  show ?thesis
    using v h falsy_identifier_is_transient[OF v h, where ov = no_overrides
        and eng = "answering (JNum 1)" and u = "\<lambda>M. None"]
    by (simp add: world_of_def shelf_def datastore_def Book_def get_prop_def
        toPOJO_def set_prop_def augmenter_def unshadowed_def no_overrides_def
        remove_def save_def assign_and_return_def call_class_static_def call_getClass_def
        getClass_def static_member_def class_static_def nth_arg_def Model_insert_def
        perform_def answering_def hydrate_def converter_def call_toPOJO_def call_assign_def
        assign_def Let_def)
qed

section \<open>Properties of \<^verbatim>\<open>duplicate\<close> and \<^verbatim>\<open>save\<close>\<close>







end
